theory Spec2Isabelle
  imports Main "HOL-Library.Sublist" "HOL-Library.Word"
begin

section \<open>Values, exceptions and results\<close>

text \<open>
  The messages of the agent arrive as JSON, which the frida binding turns into Python
  values. The model covers \<^verbatim>\<open>None\<close>, integers, strings and dictionaries with string
  keys (an association list, looked up from the front); floats, booleans and lists are
  outside it.
\<close>

datatype pyval = PyNone | PyInt int | PyStr string | PyDict "(string \<times> pyval) list"

type_synonym byte = "8 word"

type_synonym pydict = "(string \<times> pyval) list"

text \<open>The exceptions the code and the library calls it makes can raise.\<close>

datatype exn =
    ValueError string
  | KeyError pyval
  | TypeError
  | AttributeError
  | FileNotFoundError
  | FileExistsError
  | NotADirectoryError
  | IsADirectoryError
  | PermissionError
  | OverflowError
  | FridaError
  | SystemExit int

text \<open>
  A statement either completes (\<open>Inr\<close>) or raises (\<open>Inl\<close>); in both cases it leaves
  a state behind. \<open>thenM\<close> is sequential composition: the second statement runs only
  when the first one completed.
\<close>

type_synonym ('s, 'a) stmt = "'s \<Rightarrow> (exn + 'a) \<times> 's"

definition thenM :: "('s, 'a) stmt \<Rightarrow> ('a \<Rightarrow> ('s, 'b) stmt) \<Rightarrow> ('s, 'b) stmt" where
  "thenM m f s = (case m s of (Inl e, s') \<Rightarrow> (Inl e, s') | (Inr a, s') \<Rightarrow> f a s')"

definition returnM :: "'a \<Rightarrow> ('s, 'a) stmt" where
  "returnM a s = (Inr a, s)"

definition raiseM :: "exn \<Rightarrow> ('s, 'a) stmt" where
  "raiseM e s = (Inl e, s)"

text \<open>\<^verbatim>\<open>bool(v)\<close>: the truth value Python gives a value.\<close>

fun truthy :: "pyval \<Rightarrow> bool" where
  "truthy PyNone = False"
| "truthy (PyInt i) = (i \<noteq> 0)"
| "truthy (PyStr s) = (s \<noteq> [])"
| "truthy (PyDict d) = (d \<noteq> [])"

text \<open>\<^verbatim>\<open>d.get(k)\<close>: the value at \<open>k\<close>, \<^verbatim>\<open>None\<close> when the key is absent.\<close>

definition dict_get :: "pydict \<Rightarrow> string \<Rightarrow> pyval" where
  "dict_get d k = (case map_of d k of None \<Rightarrow> PyNone | Some v \<Rightarrow> v)"

text \<open>\<^verbatim>\<open>v.get(k)\<close> on any value: only a dictionary has the method.\<close>

fun py_get :: "pyval \<Rightarrow> string \<Rightarrow> exn + pyval" where
  "py_get (PyDict d) k = Inr (dict_get d k)"
| "py_get v k = Inl AttributeError"

text \<open>\<^verbatim>\<open>v[k]\<close> with a string key: \<^verbatim>\<open>KeyError\<close> when a dictionary lacks the key.\<close>

fun py_item :: "pyval \<Rightarrow> string \<Rightarrow> exn + pyval" where
  "py_item (PyDict d) k = (case map_of d k of None \<Rightarrow> Inl (KeyError (PyStr k)) | Some v \<Rightarrow> Inr v)"
| "py_item v k = Inl TypeError"

text \<open>Dictionaries are not hashable, so they cannot be keys of a dictionary.\<close>

fun hashable :: "pyval \<Rightarrow> bool" where
  "hashable (PyDict d) = False"
| "hashable v = True"

section \<open>The operating system, as far as the program uses it\<close>

text \<open>
  A file or directory is identified by the list of its path components from the root
  directory (\<open>[]\<close>). Symbolic links, permission checks on opening and a full disk are
  outside the model. \<open>foreign\<close> holds the files whose times and mode this process
  may not change (owned by another user, or on a file system without permissions).
  \<open>time_lo\<close> and \<open>time_hi\<close> bound the times the file system can record.

  A Python file object is a number into the table \<open>handles\<close>. \<^verbatim>\<open>open(path, 'wb')\<close>
  gives a buffered writer: the entry of an open file object holds the file it writes,
  the position in the file where its next bytes go, and the bytes written to it that
  have not reached the file yet. \<open>bufsize\<close> is the size of the buffer of a file
  object (the block size of the file system, or \<^verbatim>\<open>io.DEFAULT_BUFFER_SIZE\<close>).
\<close>

type_synonym fpath = "string list"

datatype oscall =
    CallOpen string
  | CallWrite nat
  | CallClose nat
  | CallUtime string
  | CallChmod string
  | CallMkdir string
  | CallRmtree string
  | CallArchive string

datatype printed = PText string | PValue pyval

record os =
  dirs :: "fpath set"
  files :: "fpath \<rightharpoonup> byte list"
  ftimes :: "fpath \<rightharpoonup> int \<times> int"
  fmodes :: "fpath \<rightharpoonup> int"
  foreign :: "fpath set"
  time_lo :: int
  time_hi :: int
  cwd :: fpath
  handles :: "nat \<rightharpoonup> fpath \<times> nat \<times> byte list"
  next_handle :: nat
  bufsize :: nat
  stdout :: "printed list list"
  calls :: "oscall list"

text \<open>\<^verbatim>\<open>s.split('/')\<close>.\<close>

fun split_sep :: "string \<Rightarrow> string list" where
  "split_sep [] = [[]]"
| "split_sep (c # cs) =
     (if c = CHR ''/'' then [] # split_sep cs
      else (case split_sep cs of [] \<Rightarrow> [[c]] | x # xs \<Rightarrow> (c # x) # xs))"

text \<open>
  Path resolution walks the components from a directory \<open>cur\<close>: an empty component
  and \<^verbatim>\<open>.\<close> stay, \<^verbatim>\<open>..\<close> goes to the parent (the root is its own parent), and a name
  that is not the last one must be an existing directory. The last name need not exist.
\<close>

fun walk :: "fpath set \<Rightarrow> (fpath \<rightharpoonup> byte list) \<Rightarrow> fpath \<Rightarrow> string list \<Rightarrow> exn + fpath" where
  "walk ds fs cur [] = Inr cur"
| "walk ds fs cur (c # cs) =
     (if c = [] \<or> c = ''.'' then walk ds fs cur cs
      else if c = ''..'' then walk ds fs (butlast cur) cs
      else if list_all (\<lambda>x. x = []) cs then Inr (cur @ [c])
      else if cur @ [c] \<in> ds then walk ds fs (cur @ [c]) cs
      else if cur @ [c] \<in> dom fs then Inl NotADirectoryError
      else Inl FileNotFoundError)"

definition resolve :: "os \<Rightarrow> string \<Rightarrow> exn + fpath" where
  "resolve w p =
     (if p = [] then Inl FileNotFoundError
      else walk (dirs w) (files w) (if hd p = CHR ''/'' then [] else cwd w) (split_sep p))"

definition exists :: "os \<Rightarrow> fpath \<Rightarrow> bool" where
  "exists w q = (q \<in> dirs w \<or> q \<in> dom (files w))"

definition log_call :: "oscall \<Rightarrow> os \<Rightarrow> os" where
  "log_call c w = w\<lparr>calls := calls w @ [c]\<rparr>"

text \<open>\<^verbatim>\<open>print(a, b, ...)\<close> adds one line to the standard output.\<close>

definition print :: "printed list \<Rightarrow> (os, unit) stmt" where
  "print xs w = (Inr (), w\<lparr>stdout := stdout w @ [xs]\<rparr>)"

text \<open>\<^verbatim>\<open>os.mkdir(path)\<close>.\<close>

definition os_mkdir :: "string \<Rightarrow> (os, unit) stmt" where
  "os_mkdir p w0 =
     (let w = log_call (CallMkdir p) w0 in
      case resolve w p of
        Inl e \<Rightarrow> (Inl e, w)
      | Inr q \<Rightarrow>
          if exists w q then (Inl FileExistsError, w)
          else (Inr (), w\<lparr>dirs := insert q (dirs w)\<rparr>))"

text \<open>
  \<^verbatim>\<open>open(path, 'wb')\<close>: creates the file or empties an existing one, and returns a new
  handle at position 0. A path with a trailing \<^verbatim>\<open>/\<close> names a directory.
\<close>

definition os_open_wb :: "string \<Rightarrow> (os, nat) stmt" where
  "os_open_wb p w0 =
     (let w = log_call (CallOpen p) w0 in
      case resolve w p of
        Inl e \<Rightarrow> (Inl e, w)
      | Inr q \<Rightarrow>
          if q \<in> dirs w then (Inl IsADirectoryError, w)
          else if last p = CHR ''/'' then
            (if q \<in> dom (files w) then (Inl NotADirectoryError, w) else (Inl IsADirectoryError, w))
          else
            (Inr (next_handle w),
             w\<lparr>files := (files w)(q \<mapsto> []),
               fmodes := (fmodes w)(q \<mapsto> (case fmodes w q of None \<Rightarrow> 420 | Some m \<Rightarrow> m)),
               handles := (handles w)(next_handle w \<mapsto> (q, 0, [])),
               next_handle := Suc (next_handle w)\<rparr>))"

text \<open>Writing \<open>bs\<close> at position \<open>off\<close>: a position past the end leaves a gap of zeros.\<close>

definition write_at :: "byte list \<Rightarrow> nat \<Rightarrow> byte list \<Rightarrow> byte list" where
  "write_at c off bs =
     take off c @ replicate (off - length c) 0 @ bs @ drop (off + length bs) c"

text \<open>
  Flushing a file object writes its buffered bytes at its position in the file and
  moves the position on; with nothing buffered it writes nothing. Bytes written through
  a handle whose file has been removed from its directory are not visible anywhere.
\<close>

definition flush_handle :: "nat \<Rightarrow> os \<Rightarrow> os" where
  "flush_handle h w =
     (case handles w h of
        None \<Rightarrow> w
      | Some (q, pos, buf) \<Rightarrow>
          if buf = [] then w
          else w\<lparr>files := (case files w q of
                              None \<Rightarrow> files w
                            | Some c \<Rightarrow> (files w)(q \<mapsto> write_at c pos buf)),
                 handles := (handles w)(h \<mapsto> (q, pos + length buf, []))\<rparr>)"

text \<open>
  \<^verbatim>\<open>f.write(data)\<close> of a buffered writer: \<^verbatim>\<open>data\<close> must be bytes (the blob of a
  message may be \<^verbatim>\<open>None\<close>), and the file object must be open. Bytes that fit into the
  free part of the buffer are only buffered. Otherwise the buffer is flushed; then
  bytes longer than the buffer go to the file directly, and shorter ones are buffered.
\<close>

definition os_write :: "nat \<Rightarrow> byte list option \<Rightarrow> (os, unit) stmt" where
  "os_write h data w0 =
     (case data of
        None \<Rightarrow> (Inl TypeError, w0)
      | Some bs \<Rightarrow>
          (case handles w0 h of
             None \<Rightarrow> (Inl (ValueError ''write to closed file''), w0)
           | Some (q, pos, buf) \<Rightarrow>
               (let w = log_call (CallWrite h) w0 in
                if length bs \<le> bufsize w - length buf
                then (Inr (), w\<lparr>handles := (handles w)(h \<mapsto> (q, pos, buf @ bs))\<rparr>)
                else
                  (let w1 = flush_handle h w; pos1 = pos + length buf in
                   if bufsize w < length bs
                   then (Inr (),
                         w1\<lparr>files := (case files w1 q of
                                         None \<Rightarrow> files w1
                                       | Some c \<Rightarrow> (files w1)(q \<mapsto> write_at c pos1 bs)),
                            handles := (handles w1)(h \<mapsto> (q, pos1 + length bs, []))\<rparr>)
                   else (Inr (), w1\<lparr>handles := (handles w1)(h \<mapsto> (q, pos1, bs))\<rparr>)))))"

text \<open>
  \<^verbatim>\<open>f.close()\<close>: flushes the buffer and closes the file; closing a closed file object
  does nothing.
\<close>

definition os_close :: "nat \<Rightarrow> (os, unit) stmt" where
  "os_close h w0 =
     (case handles w0 h of
        None \<Rightarrow> (Inr (), w0)
      | Some x \<Rightarrow>
          (let w = flush_handle h (log_call (CallClose h) w0) in
           (Inr (), w\<lparr>handles := (handles w)(h := None)\<rparr>)))"

text \<open>
  The conversions of Python integers to the C types of the system calls, on a platform
  with a 64-bit \<^verbatim>\<open>time_t\<close> and a 32-bit \<^verbatim>\<open>int\<close>: a value out of range raises
  \<^verbatim>\<open>OverflowError\<close>, a value that is no number \<^verbatim>\<open>TypeError\<close>.
\<close>

definition fits_time_t :: "int \<Rightarrow> bool" where
  "fits_time_t i = (- (2 ^ 63) \<le> i \<and> i < 2 ^ 63)"

definition fits_c_int :: "int \<Rightarrow> bool" where
  "fits_c_int i = (- (2 ^ 31) \<le> i \<and> i < 2 ^ 31)"

definition as_time_t :: "pyval \<Rightarrow> exn + int" where
  "as_time_t v =
     (case v of
        PyInt i \<Rightarrow> if fits_time_t i then Inr i else Inl OverflowError
      | _ \<Rightarrow> Inl TypeError)"

definition as_c_int :: "pyval \<Rightarrow> exn + int" where
  "as_c_int v =
     (case v of
        PyInt i \<Rightarrow> if fits_c_int i then Inr i else Inl OverflowError
      | _ \<Rightarrow> Inl TypeError)"

text \<open>The time the file system records for \<open>x\<close>: the nearest one it can represent.\<close>

definition clamp_time :: "os \<Rightarrow> int \<Rightarrow> int" where
  "clamp_time w x = max (time_lo w) (min (time_hi w) x)"

text \<open>
  \<^verbatim>\<open>os.utime(path, (atime, mtime))\<close>: the two times are converted, the first one
  first, before the system is called.
\<close>

definition os_utime :: "string \<Rightarrow> pyval \<times> pyval \<Rightarrow> (os, unit) stmt" where
  "os_utime p tp w0 =
     (case as_time_t (fst tp) of
        Inl e \<Rightarrow> (Inl e, w0)
      | Inr a \<Rightarrow>
          (case as_time_t (snd tp) of
             Inl e \<Rightarrow> (Inl e, w0)
           | Inr m \<Rightarrow>
               (let w = log_call (CallUtime p) w0 in
                case resolve w p of
                  Inl e \<Rightarrow> (Inl e, w)
                | Inr q \<Rightarrow>
                    if exists w q then
                      (if q \<in> foreign w then (Inl PermissionError, w)
                       else (Inr (),
                             w\<lparr>ftimes := (ftimes w)(q \<mapsto> (clamp_time w a, clamp_time w m))\<rparr>))
                    else (Inl FileNotFoundError, w))))"

text \<open>
  \<^verbatim>\<open>os.chmod(path, mode)\<close>: the mode is converted before the system is called, and
  the system keeps its low twelve bits.
\<close>

definition os_chmod :: "string \<Rightarrow> pyval \<Rightarrow> (os, unit) stmt" where
  "os_chmod p mode w0 =
     (case as_c_int mode of
        Inl e \<Rightarrow> (Inl e, w0)
      | Inr m \<Rightarrow>
          (let w = log_call (CallChmod p) w0 in
           case resolve w p of
             Inl e \<Rightarrow> (Inl e, w)
           | Inr q \<Rightarrow>
               if exists w q then
                 (if q \<in> foreign w then (Inl PermissionError, w)
                  else (Inr (), w\<lparr>fmodes := (fmodes w)(q \<mapsto> m mod 4096)\<rparr>))
               else (Inl FileNotFoundError, w)))"

text \<open>Reading a whole file, as \<^verbatim>\<open>codecs.open(path, 'r', 'utf-8')\<close> and \<^verbatim>\<open>read\<close> do.\<close>

definition os_read :: "string \<Rightarrow> (os, byte list) stmt" where
  "os_read p w0 =
     (let w = log_call (CallOpen p) w0 in
      case resolve w p of
        Inl e \<Rightarrow> (Inl e, w)
      | Inr q \<Rightarrow>
          if q \<in> dirs w then (Inl IsADirectoryError, w)
          else (case files w q of None \<Rightarrow> (Inl FileNotFoundError, w) | Some c \<Rightarrow> (Inr c, w)))"

text \<open>
  \<^verbatim>\<open>shutil.rmtree(path)\<close> as the clean-up of a temporary directory runs it: the
  directory and everything below it is removed, and a directory that is not there is
  not an error.
\<close>

definition os_rmtree :: "string \<Rightarrow> os \<Rightarrow> os" where
  "os_rmtree p w0 =
     (let w = log_call (CallRmtree p) w0 in
      case resolve w p of
        Inl e \<Rightarrow> w
      | Inr q \<Rightarrow>
          w\<lparr>dirs := {d \<in> dirs w. \<not> prefix q d},
            files := (\<lambda>x. if prefix q x then None else files w x),
            ftimes := (\<lambda>x. if prefix q x then None else ftimes w x),
            fmodes := (\<lambda>x. if prefix q x then None else fmodes w x)\<rparr>)"

text \<open>
  \<^verbatim>\<open>shutil.make_archive(base, 'zip', root)\<close> writes the file \<^verbatim>\<open>base.zip\<close>. What the
  archive holds is not modelled: the call either raises or stores the bytes \<open>res\<close>
  names.
\<close>

definition os_make_archive :: "exn + byte list \<Rightarrow> string \<Rightarrow> (os, unit) stmt" where
  "os_make_archive res base w0 =
     (let w = log_call (CallArchive (base @ ''.zip'')) w0 in
      case res of
        Inl e \<Rightarrow> (Inl e, w)
      | Inr bs \<Rightarrow>
          (case resolve w (base @ ''.zip'') of
             Inl e \<Rightarrow> (Inl e, w)
           | Inr q \<Rightarrow>
               if q \<in> dirs w then (Inl IsADirectoryError, w)
               else (Inr (), w\<lparr>files := (files w)(q \<mapsto> bs)\<rparr>)))"

text \<open>
  \<^verbatim>\<open>os.path.join(a, b)\<close> of \<^verbatim>\<open>posixpath\<close>: an absolute \<open>b\<close> replaces \<open>a\<close>;
  otherwise \<open>b\<close> is appended, after a separator unless \<open>a\<close> is empty or ends with one.
\<close>

definition path_join :: "string \<Rightarrow> string \<Rightarrow> string" where
  "path_join a b =
     (if prefix ''/'' b then b
      else if a = [] \<or> suffix ''/'' a then a @ b
      else a @ ''/'' @ b)"

section \<open>Task\<close>

record task =
  t_session :: pyval
  t_path :: string
  t_info :: pyval
  t_file :: nat

text \<open>\<^verbatim>\<open>Task.__init__\<close>: stores its arguments and opens the file for writing.\<close>

definition Task_init :: "pyval \<Rightarrow> string \<Rightarrow> pyval \<Rightarrow> (os, task) stmt" where
  "Task_init session path info =
     thenM (os_open_wb path) (\<lambda>h.
       returnM \<lparr>t_session = session, t_path = path, t_info = info, t_file = h\<rparr>)"

definition Task_write :: "task \<Rightarrow> byte list option \<Rightarrow> (os, unit) stmt" where
  "Task_write t data = os_write (t_file t) data"

definition Task_close :: "task \<Rightarrow> (os, unit) stmt" where
  "Task_close t = os_close (t_file t)"

text \<open>
  \<^verbatim>\<open>try: ... except FileNotFoundError: pass\<close>: only this exception is caught; every
  other one leaves the block.
\<close>

definition except_FileNotFoundError :: "('s, unit) stmt \<Rightarrow> ('s, unit) stmt" where
  "except_FileNotFoundError m s =
     (case m s of
        (Inl FileNotFoundError, s') \<Rightarrow> (Inr (), s')
      | r \<Rightarrow> r)"

text \<open>
  The body of the \<^verbatim>\<open>try\<close> statement of \<^verbatim>\<open>Task.finish\<close>: sets the times when
  \<^verbatim>\<open>all(time_pair)\<close>, then reads \<^verbatim>\<open>info['permission']\<close> and sets the mode.
\<close>

definition finish_try_body :: "task \<Rightarrow> pyval \<times> pyval \<Rightarrow> (os, unit) stmt" where
  "finish_try_body t time_pair =
     thenM (if truthy (fst time_pair) \<and> truthy (snd time_pair)
            then os_utime (t_path t) time_pair else returnM ()) (\<lambda>_.
     thenM (\<lambda>w. (py_item (t_info t) ''permission'', w)) (\<lambda>p.
     os_chmod (t_path t) p))"

text \<open>
  \<^verbatim>\<open>Task.finish\<close>: closes the file, reads the two times with \<^verbatim>\<open>info.get\<close>, and runs
  the \<^verbatim>\<open>try\<close> statement.
\<close>

definition Task_finish :: "task \<Rightarrow> (os, unit) stmt" where
  "Task_finish t =
     thenM (Task_close t) (\<lambda>_.
     thenM (\<lambda>w. (py_get (t_info t) ''creation'', w)) (\<lambda>c.
     thenM (\<lambda>w. (py_get (t_info t) ''modification'', w)) (\<lambda>m.
     except_FileNotFoundError (finish_try_body t (c, m)))))"

section \<open>IPADump\<close>

text \<open>
  The fields of the object that the methods use: of \<^verbatim>\<open>app\<close> its name, the temporary
  directory (\<^verbatim>\<open>None\<close> until \<^verbatim>\<open>run\<close> sets it), the registry of tasks, the flag
  \<^verbatim>\<open>verbose\<close>, and the session (\<^verbatim>\<open>None\<close> until \<^verbatim>\<open>inject\<close> attaches; the value says
  whether it is still attached). The state of the operating system is carried along
  as \<open>world\<close>.
\<close>

record ipadump =
  app_name :: string
  tempdir :: "string option"
  tasks :: "pyval \<rightharpoonup> task"
  verbose :: bool
  session :: "bool option"
  world :: os

text \<open>A statement on the operating system, run on the \<open>world\<close> of the object.\<close>

definition in_world :: "(os, 'a) stmt \<Rightarrow> (ipadump, 'a) stmt" where
  "in_world m st = (case m (world st) of (r, w) \<Rightarrow> (r, st\<lparr>world := w\<rparr>))"

text \<open>
  \<^verbatim>\<open>IPADump.local_path\<close>: joins the relative path to the temporary directory and
  raises \<^verbatim>\<open>ValueError\<close> unless the result starts with the directory's name.
  \<^verbatim>\<open>os.path.join\<close> raises \<^verbatim>\<open>TypeError\<close> when an argument is not a string.
\<close>

definition local_path :: "pyval \<Rightarrow> (ipadump, string) stmt" where
  "local_path relative st =
     (case (tempdir st, relative) of
        (Some parent, PyStr rel) \<Rightarrow>
          (let lp = path_join parent rel in
           if \<not> prefix parent lp
           then (Inl (ValueError (''path \"'' @ rel @ ''\" is illegal'')), st)
           else (Inr lp, st))
      | _ \<Rightarrow> (Inl TypeError, st))"

text \<open>
  \<^verbatim>\<open>self.tasks[session]\<close>: \<^verbatim>\<open>TypeError\<close> for a key that cannot be hashed,
  \<^verbatim>\<open>KeyError\<close> for a key that is not in the dictionary.
\<close>

definition tasks_item :: "pyval \<Rightarrow> (ipadump, task) stmt" where
  "tasks_item k st =
     (if hashable k then
        (case tasks st k of None \<Rightarrow> (Inl (KeyError k), st) | Some t \<Rightarrow> (Inr t, st))
      else (Inl TypeError, st))"

text \<open>
  A \<^verbatim>\<open>Task\<close> that nothing refers to any more is finalised by CPython at once, and
  with it its file object, whose finaliser closes the file. Every task has a file
  object of its own, the one \<^verbatim>\<open>Task.__init__\<close> opened, and the registry holds the only
  lasting reference to the task.
\<close>

definition drop_task :: "task \<Rightarrow> ipadump \<Rightarrow> ipadump" where
  "drop_task t st = st\<lparr>world := snd (os_close (t_file t) (world st))\<rparr>"

text \<open>
  \<^verbatim>\<open>self.tasks[session] = t\<close>: the task that was stored under the key, if any, is
  dropped; with a key that cannot be hashed nothing is stored and \<open>t\<close> itself is
  dropped.
\<close>

definition tasks_set :: "pyval \<Rightarrow> task \<Rightarrow> (ipadump, unit) stmt" where
  "tasks_set k t st =
     (if hashable k then
        (case tasks st k of
           None \<Rightarrow> (Inr (), st\<lparr>tasks := (tasks st)(k \<mapsto> t)\<rparr>)
         | Some old \<Rightarrow> (Inr (), drop_task old (st\<lparr>tasks := (tasks st)(k \<mapsto> t)\<rparr>)))
      else (Inl TypeError, drop_task t st))"

text \<open>\<^verbatim>\<open>del self.tasks[session]\<close>: the task removed is dropped.\<close>

definition tasks_del :: "pyval \<Rightarrow> (ipadump, unit) stmt" where
  "tasks_del k st =
     (if hashable k then
        (case tasks st k of
           None \<Rightarrow> (Inl (KeyError k), st)
         | Some t \<Rightarrow> (Inr (), drop_task t (st\<lparr>tasks := (tasks st)(k := None)\<rparr>)))
      else (Inl TypeError, st))"

definition on_download_start :: "pyval \<Rightarrow> pyval \<Rightarrow> pyval \<Rightarrow> (ipadump, unit) stmt" where
  "on_download_start sess relative info st =
     thenM (in_world (if verbose st then print [PText ''downloading'', PValue relative]
                      else returnM ())) (\<lambda>_.
     thenM (local_path relative) (\<lambda>lp.
     thenM (in_world (Task_init sess lp info)) (\<lambda>t.
     tasks_set sess t))) st"

definition on_download_data :: "pyval \<Rightarrow> byte list option \<Rightarrow> (ipadump, unit) stmt" where
  "on_download_data sess data =
     thenM (tasks_item sess) (\<lambda>t. in_world (Task_write t data))"

definition close_session :: "pyval \<Rightarrow> (ipadump, unit) stmt" where
  "close_session sess =
     thenM (tasks_item sess) (\<lambda>t.
     thenM (in_world (Task_finish t)) (\<lambda>_.
     tasks_del sess))"

definition on_download_finish :: "pyval \<Rightarrow> (ipadump, unit) stmt" where
  "on_download_finish sess = close_session sess"

definition on_download_error :: "pyval \<Rightarrow> (ipadump, unit) stmt" where
  "on_download_error sess = close_session sess"

definition on_mkdir :: "pyval \<Rightarrow> (ipadump, unit) stmt" where
  "on_mkdir path =
     thenM (local_path path) (\<lambda>lp. in_world (os_mkdir lp))"

text \<open>\<^verbatim>\<open>self.session.detach()\<close>: \<^verbatim>\<open>None\<close> has no such method.\<close>

definition session_detach :: "(ipadump, unit) stmt" where
  "session_detach st =
     (case session st of
        None \<Rightarrow> (Inl AttributeError, st)
      | Some a \<Rightarrow> (Inr (), st\<lparr>session := Some False\<rparr>))"

text \<open>
  A call \<^verbatim>\<open>f(**payload)\<close> binds the parameters of \<open>f\<close> by name: a parameter
  without a value is a \<^verbatim>\<open>TypeError\<close>, and so is a key of the payload that names a
  parameter which already has its value (\<^verbatim>\<open>self\<close> of a bound method, \<^verbatim>\<open>data\<close> when
  the call passes \<^verbatim>\<open>data=data\<close>).
\<close>

definition kwarg :: "pydict \<Rightarrow> string \<Rightarrow> (ipadump, pyval) stmt" where
  "kwarg d k st = (case map_of d k of None \<Rightarrow> (Inl TypeError, st) | Some v \<Rightarrow> (Inr v, st))"

definition no_kwarg :: "pydict \<Rightarrow> string \<Rightarrow> (ipadump, unit) stmt" where
  "no_kwarg d k st = (case map_of d k of None \<Rightarrow> (Inr (), st) | Some v \<Rightarrow> (Inl TypeError, st))"

text \<open>
  \<^verbatim>\<open>method_mapping[payload.get('event')]\<close> followed by
  \<^verbatim>\<open>method(data=data, **payload)\<close>.
\<close>

definition dispatch_download :: "pydict \<Rightarrow> byte list option \<Rightarrow> (ipadump, unit) stmt" where
  "dispatch_download payload data =
     (let event = dict_get payload ''event'' in
      if event = PyStr ''start'' then
        thenM (no_kwarg payload ''self'') (\<lambda>_.
        thenM (no_kwarg payload ''data'') (\<lambda>_.
        thenM (kwarg payload ''session'') (\<lambda>s.
        thenM (kwarg payload ''relative'') (\<lambda>r.
        thenM (kwarg payload ''info'') (\<lambda>i.
        on_download_start s r i)))))
      else if event = PyStr ''data'' then
        thenM (no_kwarg payload ''self'') (\<lambda>_.
        thenM (no_kwarg payload ''data'') (\<lambda>_.
        thenM (kwarg payload ''session'') (\<lambda>s.
        on_download_data s data)))
      else if event = PyStr ''end'' then
        thenM (no_kwarg payload ''self'') (\<lambda>_.
        thenM (no_kwarg payload ''data'') (\<lambda>_.
        thenM (kwarg payload ''session'') (\<lambda>s.
        on_download_finish s)))
      else if event = PyStr ''error'' then
        thenM (no_kwarg payload ''self'') (\<lambda>_.
        thenM (no_kwarg payload ''data'') (\<lambda>_.
        thenM (kwarg payload ''session'') (\<lambda>s.
        on_download_error s)))
      else if hashable event then raiseM (KeyError event)
      else raiseM TypeError)"

text \<open>
  \<^verbatim>\<open>IPADump.on_message\<close>. The envelope \<open>msg\<close> is a dictionary; its payload is any
  value, and \<^verbatim>\<open>payload.get\<close> needs it to be a dictionary.
\<close>

definition on_message :: "pydict \<Rightarrow> byte list option \<Rightarrow> (ipadump, unit) stmt" where
  "on_message msg data =
     (if dict_get msg ''type'' \<noteq> PyStr ''send'' then
        in_world (print [PText ''unknown message:'', PValue (PyDict msg)])
      else
        (case (case map_of msg ''payload'' of None \<Rightarrow> PyDict [] | Some v \<Rightarrow> v) of
           PyDict payload \<Rightarrow>
             (let subject = dict_get payload ''subject'' in
              if subject = PyStr ''download'' then dispatch_download payload data
              else if subject = PyStr ''finish'' then
                thenM (in_world (print [PText ''bye''])) (\<lambda>_.
                thenM session_detach (\<lambda>_.
                raiseM (SystemExit 0)))
              else if subject = PyStr ''mkdir'' then
                thenM (no_kwarg payload ''self'') (\<lambda>_.
                thenM (kwarg payload ''path'') (\<lambda>p.
                on_mkdir p))
              else
                thenM (in_world (print [PText ''unknown message''])) (\<lambda>_.
                in_world (print [PValue (PyDict msg)])))
         | _ \<Rightarrow> raiseM AttributeError))"

section \<open>The run\<close>

text \<open>
  What the collaborators do during one run: the name \<^verbatim>\<open>tempfile\<close> chooses for the
  temporary directory, whether spawning or attaching raises, whether creating or
  loading the script raises, the messages the agent sends while
  \<^verbatim>\<open>script.exports.dump()\<close> runs, whether that call raises, and the outcome of
  packaging. The messages are handed to \<open>on_message\<close> one
  after the other inside \<^verbatim>\<open>inject\<close>, and an exception of the handler leaves
  \<^verbatim>\<open>inject\<close>.
\<close>

record env =
  tmpname :: string
  attach_error :: "exn option"
  script_error :: "exn option"
  inbox :: "(pydict \<times> byte list option) list"
  dump_error :: "exn option"
  archive :: "exn + byte list"

fun deliver :: "(pydict \<times> byte list option) list \<Rightarrow> (ipadump, unit) stmt" where
  "deliver [] st = (Inr (), st)"
| "deliver ((msg, data) # ms) st =
     (case on_message msg data st of
        (Inl e, st') \<Rightarrow> (Inl e, st')
      | (Inr u, st') \<Rightarrow> deliver ms st')"

definition fails_with :: "exn option \<Rightarrow> ('s, unit) stmt" where
  "fails_with eo s = (case eo of None \<Rightarrow> (Inr (), s) | Some e \<Rightarrow> (Inl e, s))"

definition inject :: "env \<Rightarrow> (ipadump, unit) stmt" where
  "inject ev =
     thenM (in_world (os_read (path_join ''agent'' ''dist.js''))) (\<lambda>source.
     thenM (in_world (print [PText ''[info]'', PText ''attaching to target''])) (\<lambda>_.
     thenM (fails_with (attach_error ev)) (\<lambda>_.
     thenM (\<lambda>st. (Inr (), st\<lparr>session := Some True\<rparr>)) (\<lambda>_.
     thenM (fails_with (script_error ev)) (\<lambda>_.
     thenM (deliver (inbox ev)) (\<lambda>_.
     fails_with (dump_error ev)))))))"

text \<open>
  \<^verbatim>\<open>with tempfile.TemporaryDirectory() as tempdir: body\<close>: the directory is made
  first; once it exists, the clean-up runs however the body ends.
\<close>

definition with_TemporaryDirectory ::
    "string \<Rightarrow> (string \<Rightarrow> (ipadump, 'a) stmt) \<Rightarrow> (ipadump, 'a) stmt" where
  "with_TemporaryDirectory name body st =
     (case in_world (os_mkdir name) st of
        (Inl e, st1) \<Rightarrow> (Inl e, st1)
      | (Inr u, st1) \<Rightarrow>
          (case body name st1 of
             (r, st2) \<Rightarrow> (r, st2\<lparr>world := os_rmtree name (world st2)\<rparr>)))"

definition run :: "env \<Rightarrow> (ipadump, unit) stmt" where
  "run ev =
     thenM (with_TemporaryDirectory (tmpname ev) (\<lambda>td.
       thenM (\<lambda>st. (Inr (), st\<lparr>tempdir := Some td\<rparr>)) (\<lambda>_.
       thenM (inject ev) (\<lambda>_.
       thenM (\<lambda>st. in_world (os_make_archive (archive ev) (app_name st)) st) (\<lambda>_.
       (\<lambda>st. in_world (print [PText (''write to '' @ app_name st @ ''.zip'')]) st)))))) (\<lambda>_.
     session_detach)"

section \<open>Observations and example states\<close>

text \<open>The operating-system calls made between two states.\<close>

definition new_calls :: "os \<Rightarrow> os \<Rightarrow> oscall list" where
  "new_calls w w' = drop (length (calls w)) (calls w')"

text \<open>A path names nothing: its last name does not exist, or a directory on the way is missing.\<close>

definition missing :: "os \<Rightarrow> string \<Rightarrow> bool" where
  "missing w p = (case resolve w p of Inl e \<Rightarrow> e = FileNotFoundError | Inr q \<Rightarrow> \<not> exists w q)"



text \<open>
  A machine with the directories \<^verbatim>\<open>/tmp\<close>, \<^verbatim>\<open>/tmp/ws\<close>, \<^verbatim>\<open>/tmp/ws2\<close> and \<^verbatim>\<open>/home\<close>
  and no files, and a dump whose temporary directory is \<^verbatim>\<open>/tmp/ws\<close>.
\<close>

definition ws_os :: os where
  "ws_os = \<lparr>dirs = {[], [''tmp''], [''tmp'', ''ws''], [''tmp'', ''ws2''], [''home'']},
            files = Map.empty, ftimes = Map.empty, fmodes = Map.empty, foreign = {},
            time_lo = - 2147483648, time_hi = 15032385535, cwd = [''home''], handles = Map.empty,
            next_handle = 0, bufsize = 8192, stdout = [], calls = []\<rparr>"

definition ws_dump :: ipadump where
  "ws_dump = \<lparr>app_name = ''App'', tempdir = Some ''/tmp/ws'', tasks = Map.empty,
              verbose = False, session = Some True, world = ws_os\<rparr>"

definition plist_info :: pyval where
  "plist_info = PyDict [(''permission'', PyInt 420)]"

text \<open>The example dump after a first \<^verbatim>\<open>start\<close> event for the session key 1.\<close>

definition started_dump :: ipadump where
  "started_dump = snd (on_download_start (PyInt 1) (PyStr ''Info.plist'') plist_info ws_dump)"


definition zero_info :: pyval where
  "zero_info = PyDict [(''creation'', PyInt 0), (''modification'', PyInt 1600000000),
                       (''permission'', PyInt 420)]"

definition plist_task :: "pyval \<Rightarrow> task" where
  "plist_task info = \<lparr>t_session = PyInt 1, t_path = ''/tmp/ws/Info.plist'', t_info = info,
                       t_file = 0\<rparr>"

definition open_os :: os where
  "open_os = world started_dump"


definition foreign_os :: os where
  "foreign_os = open_os\<lparr>foreign := {[''tmp'', ''ws'', ''Info.plist'']}\<rparr>"

definition end_message :: pydict where
  "end_message = [(''type'', PyStr ''send''),
                  (''payload'', PyDict [(''subject'', PyStr ''download''), (''event'', PyStr ''end''),
                                        (''session'', PyInt 1)])]"

text \<open>
  A step of the program never removes a directory and never changes the working
  directory: \<open>extends w w'\<close> relates the operating system before and after.
\<close>

definition extends :: "os \<Rightarrow> os \<Rightarrow> bool" where
  "extends w w' = (dirs w \<subseteq> dirs w' \<and> cwd w' = cwd w)"

definition keeps_dirs :: "(ipadump, 'a) stmt \<Rightarrow> bool" where
  "keeps_dirs m = (\<forall>st. extends (world st) (world (snd (m st))))"

text \<open>
  A machine before a run, with the agent's script in the working directory, and three
  behaviours of the collaborators: the agent sends a \<^verbatim>\<open>mkdir\<close> and then \<^verbatim>\<open>finish\<close>;
  attaching to the target fails; the agent sends a \<^verbatim>\<open>mkdir\<close> and the call returns.
\<close>

definition home_os :: os where
  "home_os = \<lparr>dirs = {[], [''tmp''], [''home''], [''home'', ''agent'']},
              files = [[''home'', ''agent'', ''dist.js''] \<mapsto> []], ftimes = Map.empty,
              fmodes = Map.empty, foreign = {}, time_lo = - 2147483648, time_hi = 15032385535,
              cwd = [''home''], handles = Map.empty, next_handle = 0, bufsize = 8192,
              stdout = [], calls = []\<rparr>"

definition idle_dump :: ipadump where
  "idle_dump = \<lparr>app_name = ''App'', tempdir = None, tasks = Map.empty, verbose = False,
                session = None, world = home_os\<rparr>"

definition mkdir_message :: pydict where
  "mkdir_message = [(''type'', PyStr ''send''),
                    (''payload'', PyDict [(''subject'', PyStr ''mkdir''),
                                          (''path'', PyStr ''Payload'')])]"

definition finish_message :: pydict where
  "finish_message = [(''type'', PyStr ''send''),
                     (''payload'', PyDict [(''subject'', PyStr ''finish'')])]"

definition exit_env :: env where
  "exit_env = \<lparr>tmpname = ''/tmp/tmpabc'', attach_error = None, script_error = None,
               inbox = [(mkdir_message, None), (finish_message, None)],
               dump_error = None, archive = Inr [80, 75]\<rparr>"

definition failing_env :: env where
  "failing_env = \<lparr>tmpname = ''/tmp/tmpabc'', attach_error = Some FridaError,
                  script_error = None, inbox = [],
                  dump_error = None, archive = Inr [80, 75]\<rparr>"

definition ok_env :: env where
  "ok_env = \<lparr>tmpname = ''/tmp/tmpabc'', attach_error = None, script_error = None,
             inbox = [(mkdir_message, None)],
             dump_error = None, archive = Inr [80, 75]\<rparr>"

text \<open>
  The events of the table in \<open>on_message\<close>, with their arguments bound, and the
  handling of a list of them, which stops at the first exception.
\<close>

datatype event =
    Start pyval pyval pyval
  | Data pyval "byte list option"
  | End pyval
  | Error pyval
  | Mkdir pyval














section \<open>Basic facts\<close>

lemmas stmt_defs = thenM_def returnM_def raiseM_def in_world_def Let_def

lemmas os_defs = resolve_def exists_def log_call_def print_def os_mkdir_def os_open_wb_def
  os_write_def os_close_def os_utime_def os_chmod_def as_time_t_def as_c_int_def
  fits_time_t_def fits_c_int_def clamp_time_def

lemma path_join_relative: "\<not> prefix ''/'' b \<Longrightarrow> prefix a (path_join a b)"
  by (simp add: path_join_def)

lemma path_join_absolute: "prefix ''/'' b \<Longrightarrow> path_join a b = b"
  by (simp add: path_join_def)

section \<open>The path check\<close>

text \<open>
  C10. The containment test of \<open>local_path\<close> is a prefix test on the text of the joined,
  unnormalised path: a path is refused exactly when it is absolute and its text does not
  start with the text of the temporary directory. So an absolute path whose text starts
  with the directory's name is accepted and returned as it is, also when it names a
  sibling of the directory, and in every other accepted case the joined path is
  returned with no canonicalisation.
\<close>

theorem local_path_raw_prefix_check:
  assumes "tempdir st = Some parent"
  shows "local_path (PyStr rel) st =
           (if prefix ''/'' rel \<and> \<not> prefix parent rel
            then (Inl (ValueError (''path \"'' @ rel @ ''\" is illegal'')), st)
            else (Inr (path_join parent rel), st))
         \<and> (prefix ''/'' rel \<and> prefix parent rel \<longrightarrow> local_path (PyStr rel) st = (Inr rel, st))"
proof (cases "prefix ''/'' rel")
  case True
  then show ?thesis using assms by (simp add: local_path_def path_join_absolute)
next
  case False
  then show ?thesis
    using assms path_join_relative [OF False, of parent] by (simp add: local_path_def)
qed

text \<open>
  With the temporary directory \<^verbatim>\<open>/tmp/ws\<close>, the path \<^verbatim>\<open>/tmp/ws2/x\<close> is accepted,
  and it names a file in the sibling directory \<^verbatim>\<open>/tmp/ws2\<close>.
\<close>

theorem local_path_raw_prefix_check_witness:
  "tempdir ws_dump = Some ''/tmp/ws''
   \<and> prefix ''/'' ''/tmp/ws2/x'' \<and> prefix ''/tmp/ws'' ''/tmp/ws2/x''
   \<and> local_path (PyStr ''/tmp/ws2/x'') ws_dump = (Inr ''/tmp/ws2/x'', ws_dump)
   \<and> resolve ws_os ''/tmp/ws2/x'' = Inr [''tmp'', ''ws2'', ''x'']
   \<and> resolve ws_os ''/tmp/ws'' = Inr [''tmp'', ''ws'']
   \<and> \<not> prefix [''tmp'', ''ws''] [''tmp'', ''ws2'', ''x'']"
proof -
  have t: "tempdir ws_dump = Some ''/tmp/ws''" by (simp add: ws_dump_def)
  have p: "prefix ''/'' ''/tmp/ws2/x'' \<and> prefix ''/tmp/ws'' ''/tmp/ws2/x''" by simp
  have r: "resolve ws_os ''/tmp/ws2/x'' = Inr [''tmp'', ''ws2'', ''x'']"
    by (simp add: resolve_def ws_os_def)
  have r2: "resolve ws_os ''/tmp/ws'' = Inr [''tmp'', ''ws'']"
    by (simp add: resolve_def ws_os_def)
  show ?thesis
    using local_path_raw_prefix_check [OF t, of "''/tmp/ws2/x''"] t p r r2 by auto
qed

text \<open>
  C1. The claim that every path escaping through \<^verbatim>\<open>..\<close> is refused fails on the code:
  with the temporary directory \<^verbatim>\<open>/tmp/ws\<close>, \<open>local_path\<close> returns
  \<^verbatim>\<open>/tmp/ws/../escape\<close> for \<^verbatim>\<open>../escape\<close>, and \<open>on_mkdir\<close> then creates the directory
  \<^verbatim>\<open>/tmp/escape\<close>, which is not below \<^verbatim>\<open>/tmp/ws\<close>. The empty path, which names the
  temporary directory itself, is accepted as well.
\<close>

theorem local_path_accepts_dotdot:
  "local_path (PyStr ''../escape'') ws_dump = (Inr ''/tmp/ws/../escape'', ws_dump)
   \<and> resolve ws_os ''/tmp/ws/../escape'' = Inr [''tmp'', ''escape'']
   \<and> local_path (PyStr []) ws_dump = (Inr ''/tmp/ws/'', ws_dump)
   \<and> resolve ws_os ''/tmp/ws/'' = Inr [''tmp'', ''ws'']
   \<and> fst (on_mkdir (PyStr ''../escape'') ws_dump) = Inr ()
   \<and> dirs (world (snd (on_mkdir (PyStr ''../escape'') ws_dump)))
       = insert [''tmp'', ''escape''] (dirs ws_os)
   \<and> \<not> prefix [''tmp'', ''ws''] [''tmp'', ''escape'']"
  by (simp add: local_path_def path_join_def suffix_to_prefix on_mkdir_def stmt_defs os_defs
        ws_dump_def ws_os_def)

section \<open>The registry of tasks\<close>

text \<open>
  C5. A data, end or error event for a session key that is not in the registry raises
  the \<^verbatim>\<open>KeyError\<close> of the dictionary lookup (a \<^verbatim>\<open>TypeError\<close> when the key is a value
  that cannot be hashed, which no entry of the registry can have), and the state after
  it is the state before: the registry, every task and every open file are unchanged.
\<close>

theorem unknown_session_raises:
  assumes "tasks st k = None"
  shows "on_download_data k data st = (Inl (if hashable k then KeyError k else TypeError), st)
       \<and> on_download_finish k st = (Inl (if hashable k then KeyError k else TypeError), st)
       \<and> on_download_error k st = (Inl (if hashable k then KeyError k else TypeError), st)"
  using assms
  by (simp add: on_download_data_def on_download_finish_def on_download_error_def
        close_session_def tasks_item_def thenM_def)

theorem unknown_session_raises_witness:
  "tasks ws_dump (PyInt 7) = None
   \<and> on_download_data (PyInt 7) (Some [1, 2]) ws_dump = (Inl (KeyError (PyInt 7)), ws_dump)
   \<and> on_download_finish (PyInt 7) ws_dump = (Inl (KeyError (PyInt 7)), ws_dump)
   \<and> on_download_error (PyInt 7) ws_dump = (Inl (KeyError (PyInt 7)), ws_dump)"
proof -
  have n: "tasks ws_dump (PyInt 7) = None" by (simp add: ws_dump_def)
  show ?thesis using unknown_session_raises [OF n, of "Some [1, 2]"] n by simp
qed

section \<open>The event router\<close>

text \<open>
  C2. A message with the subject \<^verbatim>\<open>download\<close> and an event that is none of
  \<^verbatim>\<open>start\<close>, \<^verbatim>\<open>data\<close>, \<^verbatim>\<open>end\<close>, \<^verbatim>\<open>error\<close> is not logged: the lookup in the table of
  methods raises \<^verbatim>\<open>KeyError\<close>, which leaves \<open>on_message\<close>, and nothing is printed.
\<close>

theorem unknown_event_raises:
  "on_message [(''type'', PyStr ''send''),
               (''payload'', PyDict [(''subject'', PyStr ''download''),
                                     (''event'', PyStr ''pause'')])]
     None ws_dump = (Inl (KeyError (PyStr ''pause'')), ws_dump)"
  by (simp add: on_message_def dispatch_download_def dict_get_def raiseM_def)

text \<open>The two other cases of the claim hold: the message is printed and the handler returns.\<close>

lemma unknown_type_logs:
  "dict_get msg ''type'' \<noteq> PyStr ''send'' \<Longrightarrow>
   on_message msg data st =
     (Inr (), st\<lparr>world := (world st)\<lparr>stdout := stdout (world st)
        @ [[PText ''unknown message:'', PValue (PyDict msg)]]\<rparr>\<rparr>)"
  by (simp add: on_message_def in_world_def print_def)

lemma unknown_subject_logs:
  assumes "dict_get msg ''type'' = PyStr ''send''"
      and "map_of msg ''payload'' = Some (PyDict payload)"
      and "dict_get payload ''subject'' \<notin> {PyStr ''download'', PyStr ''finish'', PyStr ''mkdir''}"
  shows "on_message msg data st =
     (Inr (), st\<lparr>world := (world st)\<lparr>stdout := stdout (world st)
        @ [[PText ''unknown message''], [PValue (PyDict msg)]]\<rparr>\<rparr>)"
  using assms by (simp add: on_message_def in_world_def print_def thenM_def)

section \<open>A second start for the same key\<close>

lemma log_call_fields:
  "resolve (log_call c w) p = resolve w p" "exists (log_call c w) q = exists w q"
  "foreign (log_call c w) = foreign w" "ftimes (log_call c w) = ftimes w"
  "fmodes (log_call c w) = fmodes w" "dirs (log_call c w) = dirs w"
  "files (log_call c w) = files w" "handles (log_call c w) = handles w"
  "next_handle (log_call c w) = next_handle w" "cwd (log_call c w) = cwd w"
  "stdout (log_call c w) = stdout w" "calls (log_call c w) = calls w @ [c]"
  "bufsize (log_call c w) = bufsize w" "time_lo (log_call c w) = time_lo w"
  "time_hi (log_call c w) = time_hi w" "clamp_time (log_call c w) x = clamp_time w x"
  by (simp_all add: log_call_def resolve_def exists_def clamp_time_def)





text \<open>What flushing and closing a file object leave as they are.\<close>

lemma flush_handle_frame:
  "dirs (flush_handle h w) = dirs w \<and> dom (files (flush_handle h w)) = dom (files w)
   \<and> ftimes (flush_handle h w) = ftimes w \<and> fmodes (flush_handle h w) = fmodes w
   \<and> foreign (flush_handle h w) = foreign w \<and> cwd (flush_handle h w) = cwd w
   \<and> stdout (flush_handle h w) = stdout w \<and> calls (flush_handle h w) = calls w
   \<and> next_handle (flush_handle h w) = next_handle w \<and> bufsize (flush_handle h w) = bufsize w
   \<and> time_lo (flush_handle h w) = time_lo w \<and> time_hi (flush_handle h w) = time_hi w"
  by (auto simp: flush_handle_def split: option.splits prod.splits)

lemma flush_handle_handles:
  "handles (flush_handle h w) h' =
     (if h' = h then (case handles w h of None \<Rightarrow> None
                      | Some (q, pos, buf) \<Rightarrow> Some (q, pos + length buf, []))
      else handles w h')"
  by (auto simp: flush_handle_def split: option.splits prod.splits)


lemma os_close_ok: "fst (os_close h w) = Inr ()"
  by (simp add: os_close_def Let_def split: option.splits)

lemma os_close_frame:
  "dirs (snd (os_close h w)) = dirs w \<and> dom (files (snd (os_close h w))) = dom (files w)
   \<and> ftimes (snd (os_close h w)) = ftimes w \<and> fmodes (snd (os_close h w)) = fmodes w
   \<and> foreign (snd (os_close h w)) = foreign w \<and> cwd (snd (os_close h w)) = cwd w
   \<and> stdout (snd (os_close h w)) = stdout w
   \<and> next_handle (snd (os_close h w)) = next_handle w
   \<and> bufsize (snd (os_close h w)) = bufsize w
   \<and> time_lo (snd (os_close h w)) = time_lo w \<and> time_hi (snd (os_close h w)) = time_hi w
   \<and> handles (snd (os_close h w)) = (handles w)(h := None)"
  using flush_handle_frame [of h "log_call (CallClose h) w"]
  by (auto simp: os_close_def Let_def log_call_fields flush_handle_handles fun_eq_iff
      split: option.splits)

lemma os_close_calls:
  "calls (snd (os_close h w)) = calls w \<or> calls (snd (os_close h w)) = calls w @ [CallClose h]"
  using flush_handle_frame [of h "log_call (CallClose h) w"]
  by (auto simp: os_close_def Let_def log_call_fields split: option.splits)






lemma local_path_snd: "snd (local_path rel st) = st"
  by (auto simp: local_path_def Let_def split: option.splits pyval.splits if_splits)







lemma started_dump_eq:
  "started_dump =
     \<lparr>app_name = ''App'', tempdir = Some ''/tmp/ws'',
      tasks = [PyInt 1 \<mapsto> \<lparr>t_session = PyInt 1, t_path = ''/tmp/ws/Info.plist'',
                               t_info = plist_info, t_file = 0\<rparr>],
      verbose = False, session = Some True,
      world = \<lparr>dirs = {[], [''tmp''], [''tmp'', ''ws''], [''tmp'', ''ws2''], [''home'']},
                files = [[''tmp'', ''ws'', ''Info.plist''] \<mapsto> []], ftimes = Map.empty,
                fmodes = [[''tmp'', ''ws'', ''Info.plist''] \<mapsto> 420], foreign = {},
                time_lo = - 2147483648, time_hi = 15032385535, cwd = [''home''],
                handles = [0 \<mapsto> ([''tmp'', ''ws'', ''Info.plist''], 0, [])],
                next_handle = Suc 0, bufsize = 8192, stdout = [],
                calls = [CallOpen ''/tmp/ws/Info.plist'']\<rparr>\<rparr>"
  by (simp add: started_dump_def on_download_start_def local_path_def path_join_def
        suffix_to_prefix Task_init_def tasks_set_def stmt_defs os_defs ws_dump_def ws_os_def)




section \<open>Finishing a task\<close>

lemma os_utime_frame:
  assumes "os_utime p tp w = (r, w')"
  shows "dirs w' = dirs w" "files w' = files w" "fmodes w' = fmodes w" "foreign w' = foreign w"
    "cwd w' = cwd w" "stdout w' = stdout w" "handles w' = handles w"
    "next_handle w' = next_handle w"
  using assms
  by (auto simp: os_utime_def log_call_fields Let_def split: sum.splits if_splits)

lemma os_chmod_frame:
  assumes "os_chmod p mode w = (r, w')"
  shows "dirs w' = dirs w" "files w' = files w" "ftimes w' = ftimes w" "foreign w' = foreign w"
    "cwd w' = cwd w" "stdout w' = stdout w" "handles w' = handles w"
    "next_handle w' = next_handle w"
  using assms
  by (auto simp: os_chmod_def log_call_fields Let_def split: sum.splits if_splits)

lemma os_chmod_calls:
  "os_chmod p mode w = (r, w') \<Longrightarrow> calls w' = calls w \<or> calls w' = calls w @ [CallChmod p]"
  by (auto simp: os_chmod_def log_call_fields Let_def split: sum.splits if_splits)










lemma Task_close_eq: "Task_close t w = (Inr (), snd (Task_close t w))"
  using os_close_ok [of "t_file t" w] by (simp add: Task_close_def prod_eq_iff)

lemma Task_close_frame:
  "dirs (snd (Task_close t w)) = dirs w \<and> dom (files (snd (Task_close t w))) = dom (files w)
   \<and> ftimes (snd (Task_close t w)) = ftimes w \<and> fmodes (snd (Task_close t w)) = fmodes w
   \<and> foreign (snd (Task_close t w)) = foreign w \<and> cwd (snd (Task_close t w)) = cwd w
   \<and> stdout (snd (Task_close t w)) = stdout w
   \<and> time_lo (snd (Task_close t w)) = time_lo w \<and> time_hi (snd (Task_close t w)) = time_hi w
   \<and> (calls (snd (Task_close t w)) = calls w
        \<or> calls (snd (Task_close t w)) = calls w @ [CallClose (t_file t)])"
  using os_close_frame [of "t_file t" w] os_close_calls [of "t_file t" w]
  by (simp add: Task_close_def)

lemma Task_finish_dict:
  "t_info t = PyDict d \<Longrightarrow>
   Task_finish t w =
     except_FileNotFoundError
       (finish_try_body t (dict_get d ''creation'', dict_get d ''modification''))
       (snd (Task_close t w))"
proof -
  assume d: "t_info t = PyDict d"
  obtain w1 where c: "Task_close t w = (Inr (), w1)"
    using Task_close_eq [of t w] by blast
  show ?thesis using d by (simp add: Task_finish_def thenM_def c)
qed

lemma try_body_skip:
  assumes "\<not> (truthy c \<and> truthy m)" and "t_info t = PyDict d"
  shows "finish_try_body t (c, m) w =
           (case map_of d ''permission'' of
              None \<Rightarrow> (Inl (KeyError (PyStr ''permission'')), w)
            | Some p \<Rightarrow> os_chmod (t_path t) p w)"
  using assms by (auto simp: finish_try_body_def thenM_def returnM_def split: option.splits)

lemma try_body_both:
  assumes "truthy c" and "truthy m" and "t_info t = PyDict d"
  shows "finish_try_body t (c, m) w =
           (case os_utime (t_path t) (c, m) w of
              (Inl e, w') \<Rightarrow> (Inl e, w')
            | (Inr u, w') \<Rightarrow>
                (case map_of d ''permission'' of
                   None \<Rightarrow> (Inl (KeyError (PyStr ''permission'')), w')
                 | Some p \<Rightarrow> os_chmod (t_path t) p w'))"
  using assms
  by (auto simp: finish_try_body_def thenM_def returnM_def split: option.splits prod.splits sum.splits)


lemma except_snd: "snd (except_FileNotFoundError m s) = snd (m s)"
  by (auto simp: except_FileNotFoundError_def split: prod.splits sum.splits exn.splits)

lemma except_other:
  "m s = (Inl e, s') \<Longrightarrow> e \<noteq> FileNotFoundError \<Longrightarrow> except_FileNotFoundError m s = (Inl e, s')"
  by (auto simp: except_FileNotFoundError_def split: exn.splits)


text \<open>What the calls of the try body are, and what it leaves unchanged.\<close>

lemma try_body_frame:
  assumes "t_info t = PyDict d" and "finish_try_body t (c, m) w = (r, w')"
  shows "dirs w' = dirs w \<and> files w' = files w \<and> foreign w' = foreign w \<and> cwd w' = cwd w
      \<and> stdout w' = stdout w \<and> handles w' = handles w"
proof (cases "truthy c \<and> truthy m")
  case False
  then show ?thesis
    using assms try_body_skip [OF False assms(1), of w]
    by (auto split: option.splits dest: os_chmod_frame)
next
  case True
  obtain ru wu where u: "os_utime (t_path t) (c, m) w = (ru, wu)"
    by (cases "os_utime (t_path t) (c, m) w")
  note fu = os_utime_frame [OF u]
  show ?thesis
    using assms(2) True try_body_both [of c m t d w] assms(1) u fu
    by (auto split: option.splits sum.splits dest: os_chmod_frame)
qed

lemma finish_skip:
  assumes "t_info t = PyDict d"
      and "\<not> (truthy (dict_get d ''creation'') \<and> truthy (dict_get d ''modification''))"
  shows "ftimes (snd (Task_finish t w)) = ftimes w
       \<and> set (new_calls w (snd (Task_finish t w))) \<subseteq> {CallClose (t_file t), CallChmod (t_path t)}"
proof -
  define w1 where "w1 = snd (Task_close t w)"
  define c where "c = dict_get d ''creation''"
  define m where "m = dict_get d ''modification''"
  have nb: "\<not> (truthy c \<and> truthy m)" using assms(2) by (simp add: c_def m_def)
  have F: "snd (Task_finish t w) = snd (finish_try_body t (c, m) w1)"
    by (simp add: Task_finish_dict [OF assms(1)] except_snd w1_def c_def m_def)
  have c1: "ftimes w1 = ftimes w"
    and k1: "calls w1 = calls w \<or> calls w1 = calls w @ [CallClose (t_file t)]"
    using Task_close_frame [of t w] by (simp_all add: w1_def)
  obtain r w2 where b: "finish_try_body t (c, m) w1 = (r, w2)"
    by (cases "finish_try_body t (c, m) w1")
  have "ftimes w2 = ftimes w1
      \<and> (calls w2 = calls w1 \<or> calls w2 = calls w1 @ [CallChmod (t_path t)])"
    using b try_body_skip [OF nb assms(1), of w1]
    by (auto split: option.splits dest: os_chmod_frame os_chmod_calls)
  then show ?thesis using c1 k1 by (auto simp: F b new_calls_def)
qed

text \<open>
  C9. When the file attributes hold both \<^verbatim>\<open>creation\<close> and \<^verbatim>\<open>modification\<close> but one of the
  two values is falsy (0, for one), \<open>Task_finish\<close> makes no \<^verbatim>\<open>utime\<close> call and leaves
  the recorded times of every file as they were: the only calls it makes are the
  closing of the file and \<^verbatim>\<open>chmod\<close>. The test is \<^verbatim>\<open>all(time_pair)\<close>, the truth value
  of the values, not the presence of the keys.
\<close>

theorem falsy_time_skips_utime:
  assumes "t_info t = PyDict d"
      and "map_of d ''creation'' = Some c" and "map_of d ''modification'' = Some m"
      and "\<not> truthy c \<or> \<not> truthy m"
  shows "ftimes (snd (Task_finish t w)) = ftimes w
       \<and> set (new_calls w (snd (Task_finish t w))) \<subseteq> {CallClose (t_file t), CallChmod (t_path t)}"
proof -
  have "\<not> (truthy (dict_get d ''creation'') \<and> truthy (dict_get d ''modification''))"
    using assms(2,3,4) by (auto simp: dict_get_def)
  then show ?thesis by (rule finish_skip [OF assms(1)])
qed








lemma open_os_eq:
  "open_os = \<lparr>dirs = {[], [''tmp''], [''tmp'', ''ws''], [''tmp'', ''ws2''], [''home'']},
                files = [[''tmp'', ''ws'', ''Info.plist''] \<mapsto> []], ftimes = Map.empty,
                fmodes = [[''tmp'', ''ws'', ''Info.plist''] \<mapsto> 420], foreign = {},
                time_lo = - 2147483648, time_hi = 15032385535, cwd = [''home''],
                handles = [0 \<mapsto> ([''tmp'', ''ws'', ''Info.plist''], 0, [])],
                next_handle = Suc 0, bufsize = 8192, stdout = [],
                calls = [CallOpen ''/tmp/ws/Info.plist'']\<rparr>"
  by (simp add: open_os_def started_dump_eq)

lemmas finish_defs = Task_finish_def Task_close_def finish_try_body_def
  except_FileNotFoundError_def new_calls_def missing_def dict_get_def flush_handle_def

text \<open>With \<^verbatim>\<open>creation = 0\<close> the times of the file stay unset, and \<open>Task_finish\<close> completes.\<close>

theorem falsy_time_skips_utime_witness:
  "t_info (plist_task zero_info)
      = PyDict [(''creation'', PyInt 0), (''modification'', PyInt 1600000000),
                (''permission'', PyInt 420)]
   \<and> \<not> truthy (PyInt 0)
   \<and> fst (Task_finish (plist_task zero_info) open_os) = Inr ()
   \<and> ftimes (snd (Task_finish (plist_task zero_info) open_os)) = ftimes open_os
   \<and> ftimes open_os [''tmp'', ''ws'', ''Info.plist''] = None
   \<and> set (new_calls open_os (snd (Task_finish (plist_task zero_info) open_os)))
        \<subseteq> {CallClose 0, CallChmod ''/tmp/ws/Info.plist''}"
proof -
  have i: "t_info (plist_task zero_info)
      = PyDict [(''creation'', PyInt 0), (''modification'', PyInt 1600000000),
                (''permission'', PyInt 420)]"
    by (simp add: plist_task_def zero_info_def)
  have c: "map_of [(''creation'', PyInt 0), (''modification'', PyInt 1600000000),
                (''permission'', PyInt 420)] ''creation'' = Some (PyInt 0)" by simp
  have m: "map_of [(''creation'', PyInt 0), (''modification'', PyInt 1600000000),
                (''permission'', PyInt 420)] ''modification'' = Some (PyInt 1600000000)" by simp
  have f: "\<not> truthy (PyInt 0) \<or> \<not> truthy (PyInt 1600000000)" by simp
  have ok: "fst (Task_finish (plist_task zero_info) open_os) = Inr ()"
    by (simp add: open_os_eq plist_task_def zero_info_def finish_defs stmt_defs os_defs)
  have n: "ftimes open_os [''tmp'', ''ws'', ''Info.plist''] = None"
    by (simp add: open_os_eq)
  show ?thesis
    using falsy_time_skips_utime [OF i c m f, of open_os] i ok n
    by (simp add: plist_task_def)
qed






lemma finish_try_body_stdout:
  assumes "t_info t = PyDict d" and "finish_try_body t (c, m) w = (r, w')"
  shows "stdout w' = stdout w"
  using try_body_frame [OF assms] by simp

text \<open>
  C7, as the code has it. An exception other than \<^verbatim>\<open>FileNotFoundError\<close> raised by the
  \<^verbatim>\<open>try\<close> block of \<open>Task_finish\<close> (by \<^verbatim>\<open>utime\<close> or \<^verbatim>\<open>chmod\<close>) is not caught: it
  leaves \<open>Task_finish\<close> and \<open>close_session\<close>, and so the handlers of the \<^verbatim>\<open>end\<close> and
  \<^verbatim>\<open>error\<close> events; nothing is printed, and the task stays in the registry.
\<close>

theorem metadata_error_propagates:
  assumes "hashable k" and "tasks st k = Some t" and "t_info t = PyDict d"
      and "finish_try_body t (dict_get d ''creation'', dict_get d ''modification'')
             (snd (Task_close t (world st))) = (Inl e, w')"
      and "e \<noteq> FileNotFoundError"
  shows "Task_finish t (world st) = (Inl e, w')
       \<and> close_session k st = (Inl e, st\<lparr>world := w'\<rparr>)
       \<and> on_download_finish k st = (Inl e, st\<lparr>world := w'\<rparr>)
       \<and> on_download_error k st = (Inl e, st\<lparr>world := w'\<rparr>)
       \<and> stdout w' = stdout (world st)"
proof -
  have F: "Task_finish t (world st) = (Inl e, w')"
    using except_other [of "finish_try_body t (dict_get d ''creation'', dict_get d ''modification'')"
        "snd (Task_close t (world st))" e w', OF assms(4,5)]
    by (simp add: Task_finish_dict [OF assms(3)])
  have C: "close_session k st = (Inl e, st\<lparr>world := w'\<rparr>)"
    using assms(1,2) F by (simp add: close_session_def tasks_item_def thenM_def in_world_def)
  have S: "stdout w' = stdout (world st)"
    using finish_try_body_stdout [OF assms(3,4)] Task_close_frame [of t "world st"] by simp
  show ?thesis using F C S by (simp add: on_download_finish_def on_download_error_def)
qed

text \<open>
  The claim that such an error is reported as a warning and does not abort: when
  \<^verbatim>\<open>chmod\<close> raises \<^verbatim>\<open>PermissionError\<close>, the \<^verbatim>\<open>end\<close> message makes \<open>on_message\<close>
  raise it, with the standard output and the registry as they were.
\<close>

theorem chmod_error_counterexample:
  "on_message end_message None (started_dump\<lparr>world := foreign_os\<rparr>)
     = (Inl PermissionError,
        started_dump\<lparr>world := foreign_os\<lparr>handles := Map.empty,
           calls := [CallOpen ''/tmp/ws/Info.plist'', CallClose 0,
                     CallChmod ''/tmp/ws/Info.plist'']\<rparr>\<rparr>)"
  by (simp add: end_message_def on_message_def dispatch_download_def kwarg_def no_kwarg_def
        on_download_finish_def close_session_def tasks_item_def tasks_del_def
        foreign_os_def open_os_eq started_dump_eq plist_info_def finish_defs stmt_defs os_defs)


text \<open>The same situation, through \<open>close_session\<close>.\<close>

theorem metadata_error_propagates_witness:
  "hashable (PyInt 1)
   \<and> tasks (started_dump\<lparr>world := foreign_os\<rparr>) (PyInt 1) = Some (plist_task plist_info)
   \<and> t_info (plist_task plist_info) = PyDict [(''permission'', PyInt 420)]
   \<and> PermissionError \<noteq> FileNotFoundError
   \<and> Task_finish (plist_task plist_info) foreign_os
        = (Inl PermissionError,
           foreign_os\<lparr>handles := Map.empty,
             calls := [CallOpen ''/tmp/ws/Info.plist'', CallClose 0,
                       CallChmod ''/tmp/ws/Info.plist'']\<rparr>)
   \<and> close_session (PyInt 1) (started_dump\<lparr>world := foreign_os\<rparr>)
        = (Inl PermissionError,
           started_dump\<lparr>world := foreign_os\<lparr>handles := Map.empty,
             calls := [CallOpen ''/tmp/ws/Info.plist'', CallClose 0,
                       CallChmod ''/tmp/ws/Info.plist'']\<rparr>\<rparr>)
   \<and> stdout foreign_os = []"
proof -
  let ?st = "started_dump\<lparr>world := foreign_os\<rparr>"
  let ?d = "[(''permission'', PyInt 420)]"
  let ?w = "foreign_os\<lparr>handles := Map.empty,
             calls := [CallOpen ''/tmp/ws/Info.plist'', CallClose 0,
                       CallChmod ''/tmp/ws/Info.plist'']\<rparr>"
  have h: "hashable (PyInt 1)" by simp
  have t: "tasks ?st (PyInt 1) = Some (plist_task plist_info)"
    by (simp add: started_dump_eq plist_task_def)
  have i: "t_info (plist_task plist_info) = PyDict ?d"
    by (simp add: plist_task_def plist_info_def)
  have b: "finish_try_body (plist_task plist_info)
             (dict_get ?d ''creation'', dict_get ?d ''modification'')
             (snd (Task_close (plist_task plist_info) (world ?st))) = (Inl PermissionError, ?w)"
    by (simp add: foreign_os_def open_os_eq plist_task_def plist_info_def finish_defs stmt_defs
          os_defs)
  have e: "PermissionError \<noteq> FileNotFoundError" by simp
  have s: "stdout foreign_os = []" by (simp add: foreign_os_def open_os_eq)
  show ?thesis
    using metadata_error_propagates [OF h t i b e] h t i s by simp
qed

section \<open>What finishing a task leaves unchanged\<close>

lemma finish_try_body_frame:
  assumes "finish_try_body t tp w = (r, w')"
  shows "dirs w' = dirs w \<and> files w' = files w \<and> cwd w' = cwd w \<and> handles w' = handles w
       \<and> next_handle w' = next_handle w"
proof -
  obtain ru wu where u: "(if truthy (fst tp) \<and> truthy (snd tp)
            then os_utime (t_path t) tp else returnM ()) w = (ru, wu)"
    by (cases "(if truthy (fst tp) \<and> truthy (snd tp)
            then os_utime (t_path t) tp else returnM ()) w")
  have fu: "dirs wu = dirs w \<and> files wu = files w \<and> cwd wu = cwd w \<and> handles wu = handles w
       \<and> next_handle wu = next_handle w"
    using u os_utime_frame [of "t_path t" tp w ru wu]
    by (auto simp: returnM_def split: if_splits)
  show ?thesis
  proof (cases ru)
    case (Inl e)
    then show ?thesis using assms u fu by (simp add: finish_try_body_def thenM_def)
  next
    case (Inr x)
    show ?thesis
    proof (cases "py_item (t_info t) ''permission''")
      case (Inl e)
      then show ?thesis using assms u fu \<open>ru = Inr x\<close>
        by (simp add: finish_try_body_def thenM_def)
    next
      case (Inr p)
      then have "os_chmod (t_path t) p wu = (r, w')"
        using assms u \<open>ru = Inr x\<close> by (simp add: finish_try_body_def thenM_def)
      from os_chmod_frame [OF this] show ?thesis using fu by simp
    qed
  qed
qed

lemma Task_finish_frame:
  "dirs (snd (Task_finish t w)) = dirs w \<and> cwd (snd (Task_finish t w)) = cwd w
   \<and> files (snd (Task_finish t w)) = files (snd (os_close (t_file t) w))
   \<and> handles (snd (Task_finish t w)) = (handles w)(t_file t := None)
   \<and> next_handle (snd (Task_finish t w)) = next_handle w"
proof -
  define w1 where "w1 = snd (Task_close t w)"
  have c: "Task_close t w = (Inr (), w1)" unfolding w1_def by (rule Task_close_eq)
  have w1: "w1 = snd (os_close (t_file t) w)" by (simp add: w1_def Task_close_def)
  have f1: "dirs w1 = dirs w \<and> cwd w1 = cwd w \<and> handles w1 = (handles w)(t_file t := None)
      \<and> next_handle w1 = next_handle w"
    using os_close_frame [of "t_file t" w] by (simp add: w1)
  show ?thesis
  proof (cases "t_info t")
    case (PyDict d)
    obtain r w2 where b: "finish_try_body t (dict_get d ''creation'', dict_get d ''modification'') w1 = (r, w2)"
      by (cases "finish_try_body t (dict_get d ''creation'', dict_get d ''modification'') w1")
    have "snd (Task_finish t w) = w2"
      by (simp add: Task_finish_dict [OF PyDict] except_snd w1_def [symmetric] b)
    then show ?thesis using finish_try_body_frame [OF b] f1 w1 by simp
  qed (simp_all add: Task_finish_def thenM_def c f1 w1 [symmetric])
qed

section \<open>The temporary directory of a run\<close>

lemma extends_refl: "extends w w"
  by (simp add: extends_def)

lemma extends_trans: "extends w w' \<Longrightarrow> extends w' w'' \<Longrightarrow> extends w w''"
  by (auto simp: extends_def)

lemma walk_mono:
  "walk ds fs cur cs = Inr q \<Longrightarrow> ds \<subseteq> ds' \<Longrightarrow> walk ds' fs' cur cs = Inr q"
  by (induction ds fs cur cs rule: walk.induct) (auto split: if_splits)

lemma resolve_extends:
  assumes "resolve w p = Inr q" and "extends w w'"
  shows "resolve w' p = Inr q"
  using assms walk_mono [of "dirs w" "files w" _ "split_sep p" q "dirs w'" "files w'"]
  by (auto simp: resolve_def extends_def split: if_splits)

lemma keeps_thenM:
  assumes "keeps_dirs m" and "\<And>a. keeps_dirs (f a)"
  shows "keeps_dirs (thenM m f)"
  unfolding keeps_dirs_def
proof
  fix st
  obtain r s' where ms: "m st = (r, s')" by (cases "m st")
  have 1: "extends (world st) (world s')" using assms(1) ms by (auto simp: keeps_dirs_def dest: spec [of _ st])
  show "extends (world st) (world (snd (thenM m f st)))"
  proof (cases r)
    case (Inl e)
    then show ?thesis using ms 1 by (simp add: thenM_def)
  next
    case (Inr a)
    have "extends (world s') (world (snd (f a s')))"
      using assms(2) [of a] by (simp add: keeps_dirs_def)
    then show ?thesis using ms Inr 1 by (auto simp: thenM_def intro: extends_trans)
  qed
qed

lemma keeps_in_world:
  assumes "\<And>w. extends w (snd (m w))"
  shows "keeps_dirs (in_world m)"
  using assms by (simp add: keeps_dirs_def in_world_def split: prod.splits)
    (metis snd_conv)

lemma keeps_same_world:
  assumes "\<And>st. world (snd (m st)) = world st"
  shows "keeps_dirs m"
  using assms by (simp add: keeps_dirs_def extends_refl)

lemma extends_print: "extends w (snd (print xs w))"
  by (simp add: print_def extends_def)

lemma extends_mkdir: "extends w (snd (os_mkdir p w))"
  by (auto simp: os_mkdir_def Let_def extends_def log_call_fields split: sum.splits)

lemma extends_open: "extends w (snd (os_open_wb p w))"
  by (auto simp: os_open_wb_def Let_def extends_def log_call_fields split: sum.splits)

lemma extends_write: "extends w (snd (os_write h d w))"
  using flush_handle_frame [of h "log_call (CallWrite h) w"]
  by (auto simp: os_write_def Let_def extends_def log_call_fields split: option.splits prod.splits)

lemma extends_close: "extends w (snd (os_close h w))"
  using os_close_frame [of h w] by (simp add: extends_def)

lemma extends_read: "extends w (snd (os_read p w))"
  by (auto simp: os_read_def Let_def extends_def log_call_fields split: sum.splits option.splits)

lemma extends_archive: "extends w (snd (os_make_archive res base w))"
  by (auto simp: os_make_archive_def Let_def extends_def log_call_fields split: sum.splits)

lemma extends_finish: "extends w (snd (Task_finish t w))"
  using Task_finish_frame [of t w] by (simp add: extends_def)

lemma extends_Task_init: "extends w (snd (Task_init s p i w))"
  using extends_open [of w p]
  by (auto simp: Task_init_def thenM_def returnM_def split: prod.splits sum.splits)


lemma keeps_local_path: "keeps_dirs (local_path rel)"
  by (rule keeps_same_world) (simp add: local_path_snd)

lemma keeps_tasks_item: "keeps_dirs (tasks_item k)"
  by (rule keeps_same_world) (simp add: tasks_item_def split: option.splits)

lemma keeps_drop_task: "extends (world st) (world (drop_task t st))"
  using extends_close [of "world st" "t_file t"] by (simp add: drop_task_def)

lemma keeps_tasks_set: "keeps_dirs (tasks_set k t)"
  unfolding keeps_dirs_def
proof
  fix st
  have "extends (world st) (world (drop_task old (st\<lparr>tasks := (tasks st)(k \<mapsto> t)\<rparr>)))" for old
    using keeps_drop_task [of "st\<lparr>tasks := (tasks st)(k \<mapsto> t)\<rparr>" old] by simp
  then show "extends (world st) (world (snd (tasks_set k t st)))"
    using keeps_drop_task [of st t]
    by (simp add: tasks_set_def extends_refl split: option.splits)
qed

lemma keeps_tasks_del: "keeps_dirs (tasks_del k)"
  unfolding keeps_dirs_def
proof
  fix st
  have "extends (world st) (world (drop_task old (st\<lparr>tasks := (tasks st)(k := None)\<rparr>)))" for old
    using keeps_drop_task [of "st\<lparr>tasks := (tasks st)(k := None)\<rparr>" old] by simp
  then show "extends (world st) (world (snd (tasks_del k st)))"
    by (simp add: tasks_del_def extends_refl split: option.splits)
qed

lemma keeps_kwarg: "keeps_dirs (kwarg d k)"
  by (rule keeps_same_world) (simp add: kwarg_def split: option.splits)

lemma keeps_no_kwarg: "keeps_dirs (no_kwarg d k)"
  by (rule keeps_same_world) (simp add: no_kwarg_def split: option.splits)

lemma keeps_session_detach: "keeps_dirs session_detach"
  by (rule keeps_same_world) (simp add: session_detach_def split: option.splits)

lemma keeps_raiseM: "keeps_dirs (raiseM e)"
  by (rule keeps_same_world) (simp add: raiseM_def)

lemma keeps_fails_with: "keeps_dirs (fails_with eo)"
  by (rule keeps_same_world) (simp add: fails_with_def split: option.splits)

lemma keeps_print: "keeps_dirs (in_world (print xs))"
  by (rule keeps_in_world) (rule extends_print)

lemma keeps_on_download_start: "keeps_dirs (on_download_start s r i)"
proof -
  have "keeps_dirs (thenM (in_world (if b then print [PText ''downloading'', PValue r]
                      else returnM ())) (\<lambda>_.
     thenM (local_path r) (\<lambda>lp.
     thenM (in_world (Task_init s lp i)) (\<lambda>t.
     tasks_set s t))))" for b
    by (intro keeps_thenM keeps_in_world keeps_local_path keeps_tasks_set extends_Task_init)
       (simp add: extends_print returnM_def extends_refl)
  then show ?thesis
    unfolding keeps_dirs_def on_download_start_def by blast
qed

lemma keeps_on_download_data: "keeps_dirs (on_download_data s d)"
  unfolding on_download_data_def Task_write_def
  by (intro keeps_thenM keeps_in_world keeps_tasks_item extends_write)

lemma keeps_close_session: "keeps_dirs (close_session s)"
  unfolding close_session_def
  by (intro keeps_thenM keeps_in_world keeps_tasks_item keeps_tasks_del extends_finish)

lemma keeps_on_mkdir: "keeps_dirs (on_mkdir p)"
  unfolding on_mkdir_def
  by (intro keeps_thenM keeps_in_world keeps_local_path extends_mkdir)

lemma keeps_dispatch_download: "keeps_dirs (dispatch_download payload data)"
  unfolding dispatch_download_def Let_def on_download_finish_def on_download_error_def
  by (auto intro!: keeps_thenM keeps_no_kwarg keeps_kwarg keeps_on_download_start
        keeps_on_download_data keeps_close_session keeps_raiseM)

lemma keeps_on_message: "keeps_dirs (on_message msg data)"
  unfolding on_message_def Let_def
  by (auto intro!: keeps_thenM keeps_no_kwarg keeps_kwarg keeps_print keeps_dispatch_download
        keeps_session_detach keeps_on_mkdir keeps_raiseM split: pyval.splits option.splits)

lemma keeps_deliver: "keeps_dirs (deliver ms)"
proof (induction ms)
  case Nil
  then show ?case by (simp add: keeps_dirs_def extends_refl)
next
  case (Cons a ms)
  obtain msg data where a: "a = (msg, data)" by (cases a)
  have "deliver (a # ms) = thenM (on_message msg data) (\<lambda>_. deliver ms)"
    by (auto simp: a thenM_def fun_eq_iff split: prod.splits sum.splits)
  then show ?case using Cons.IH keeps_on_message by (simp add: keeps_thenM)
qed

lemma keeps_inject: "keeps_dirs (inject ev)"
  unfolding inject_def
  by (intro keeps_thenM keeps_in_world keeps_print keeps_fails_with keeps_deliver extends_read
        keeps_same_world) simp

lemma keeps_self:
  assumes "\<And>x. keeps_dirs (g x)"
  shows "keeps_dirs (\<lambda>st. g st st)"
  using assms by (simp add: keeps_dirs_def)

lemma keeps_run_body:
  "keeps_dirs (thenM (\<lambda>st. (Inr (), st\<lparr>tempdir := Some td\<rparr>)) (\<lambda>_.
       thenM (inject ev) (\<lambda>_.
       thenM (\<lambda>st. in_world (os_make_archive (archive ev) (app_name st)) st) (\<lambda>_.
       (\<lambda>st. in_world (print [PText (''write to '' @ app_name st @ ''.zip'')]) st)))))"
proof -
  have a: "keeps_dirs (\<lambda>st. in_world (os_make_archive (archive ev) (app_name st)) st)"
    by (rule keeps_self [of "\<lambda>x. in_world (os_make_archive (archive ev) (app_name x))"])
       (rule keeps_in_world, rule extends_archive)
  have p: "keeps_dirs (\<lambda>st. in_world (print [PText (''write to '' @ app_name st @ ''.zip'')]) st)"
    by (rule keeps_self [of "\<lambda>x. in_world (print [PText (''write to '' @ app_name x @ ''.zip'')])"])
       (rule keeps_print)
  have t: "keeps_dirs (\<lambda>st. (Inr (), st\<lparr>tempdir := Some td\<rparr>))"
    by (rule keeps_same_world) simp
  show ?thesis
    by (intro keeps_thenM keeps_inject a p t)
qed

lemma rmtree_removes:
  "resolve w p = Inr q \<Longrightarrow> prefix q x \<Longrightarrow> \<not> exists (os_rmtree p w) x"
  by (simp add: os_rmtree_def Let_def log_call_fields exists_def dom_def)

lemma mkdir_ok:
  "resolve w p = Inr q \<Longrightarrow> \<not> exists w q \<Longrightarrow>
   os_mkdir p w = (Inr (), (log_call (CallMkdir p) w)\<lparr>dirs := insert q (dirs w)\<rparr>)"
  by (simp add: os_mkdir_def Let_def log_call_fields)

text \<open>
  C8. Once \<open>run\<close> has made the temporary directory, nothing is left of it when
  \<open>run\<close> ends, whatever the outcome: a normal return, an exception of a collaborator
  or of a handler, or the \<^verbatim>\<open>SystemExit\<close> that the \<^verbatim>\<open>finish\<close> message raises. Neither the
  directory nor any file or directory below it exists in the final state. The
  hypotheses say that the name chosen for the directory is free, as \<^verbatim>\<open>tempfile\<close>
  ensures. The messages are handled inside \<^verbatim>\<open>inject\<close>, one after the other.
\<close>

theorem workspace_removed:
  assumes "resolve (world st) (tmpname ev) = Inr q" and "\<not> exists (world st) q"
      and "prefix q p"
  shows "\<not> exists (world (snd (run ev st))) p"
proof -
  define body where "body = (\<lambda>td.
       thenM (\<lambda>st. (Inr (), st\<lparr>tempdir := Some td\<rparr>)) (\<lambda>_.
       thenM (inject ev) (\<lambda>_.
       thenM (\<lambda>st. in_world (os_make_archive (archive ev) (app_name st)) st) (\<lambda>_.
       (\<lambda>st. in_world (print [PText (''write to '' @ app_name st @ ''.zip'')]) st)))))"
  define w1 where "w1 = (log_call (CallMkdir (tmpname ev)) (world st))\<lparr>dirs := insert q (dirs (world st))\<rparr>"
  define st1 where "st1 = st\<lparr>world := w1\<rparr>"
  have mk: "in_world (os_mkdir (tmpname ev)) st = (Inr (), st1)"
    using mkdir_ok [OF assms(1,2)] by (simp add: in_world_def st1_def w1_def)
  have e1: "extends (world st) w1"
    by (auto simp: extends_def w1_def log_call_fields)
  have r1: "resolve w1 (tmpname ev) = Inr q"
    by (rule resolve_extends [OF assms(1) e1])
  obtain r st2 where b: "body (tmpname ev) st1 = (r, st2)" by (cases "body (tmpname ev) st1")
  have "extends (world st1) (world st2)"
    using keeps_run_body [of "tmpname ev" ev] b
    by (auto simp: keeps_dirs_def body_def dest: spec [of _ st1])
  then have r2: "resolve (world st2) (tmpname ev) = Inr q"
    using r1 resolve_extends [of w1 "tmpname ev" q "world st2"] by (simp add: st1_def)
  define st3 where "st3 = st2\<lparr>world := os_rmtree (tmpname ev) (world st2)\<rparr>"
  have W: "with_TemporaryDirectory (tmpname ev) body st = (r, st3)"
    by (simp add: with_TemporaryDirectory_def mk b st3_def)
  have gone: "\<not> exists (world st3) p"
    using rmtree_removes [OF r2 assms(3)] by (simp add: st3_def)
  have R: "run ev st = thenM (with_TemporaryDirectory (tmpname ev) body) (\<lambda>_. session_detach) st"
    by (simp add: run_def body_def)
  have "world (snd (run ev st)) = world st3"
    by (cases r) (auto simp: R W thenM_def session_detach_def split: option.splits)
  then show ?thesis using gone by simp
qed


lemmas run_defs = run_def with_TemporaryDirectory_def inject_def fails_with_def deliver.simps
  on_message_def dispatch_download_def kwarg_def no_kwarg_def on_mkdir_def session_detach_def
  local_path_def path_join_def suffix_to_prefix dict_get_def os_read_def os_rmtree_def
  os_make_archive_def

lemma run_exit:
  "fst (run exit_env idle_dump) = Inl (SystemExit 0)
   \<and> calls (world (snd (run exit_env idle_dump)))
       = [CallMkdir ''/tmp/tmpabc'', CallOpen ''agent/dist.js'', CallMkdir ''/tmp/tmpabc/Payload'',
          CallRmtree ''/tmp/tmpabc'']"
  by (simp add: exit_env_def idle_dump_def home_os_def mkdir_message_def finish_message_def
        run_defs stmt_defs os_defs)

lemma run_failing:
  "fst (run failing_env idle_dump) = Inl FridaError
   \<and> calls (world (snd (run failing_env idle_dump)))
       = [CallMkdir ''/tmp/tmpabc'', CallOpen ''agent/dist.js'', CallRmtree ''/tmp/tmpabc'']"
  by (simp add: failing_env_def idle_dump_def home_os_def run_defs stmt_defs os_defs)

lemma run_ok:
  "fst (run ok_env idle_dump) = Inr ()
   \<and> calls (world (snd (run ok_env idle_dump)))
       = [CallMkdir ''/tmp/tmpabc'', CallOpen ''agent/dist.js'', CallMkdir ''/tmp/tmpabc/Payload'',
          CallArchive ''App.zip'', CallRmtree ''/tmp/tmpabc'']"
  by (simp add: ok_env_def idle_dump_def home_os_def mkdir_message_def
        run_defs stmt_defs os_defs)

text \<open>
  Three runs on the example machine: one ended by \<^verbatim>\<open>finish\<close>, one where attaching
  fails, one that completes. In each the directory was made and is gone at the end.
\<close>

theorem workspace_removed_witness:
  "resolve (world idle_dump) ''/tmp/tmpabc'' = Inr [''tmp'', ''tmpabc'']
   \<and> \<not> exists (world idle_dump) [''tmp'', ''tmpabc'']
   \<and> prefix [''tmp'', ''tmpabc''] [''tmp'', ''tmpabc'', ''Payload'']
   \<and> fst (run exit_env idle_dump) = Inl (SystemExit 0)
   \<and> CallMkdir ''/tmp/tmpabc/Payload'' \<in> set (calls (world (snd (run exit_env idle_dump))))
   \<and> \<not> exists (world (snd (run exit_env idle_dump))) [''tmp'', ''tmpabc'']
   \<and> \<not> exists (world (snd (run exit_env idle_dump))) [''tmp'', ''tmpabc'', ''Payload'']
   \<and> fst (run failing_env idle_dump) = Inl FridaError
   \<and> \<not> exists (world (snd (run failing_env idle_dump))) [''tmp'', ''tmpabc'']
   \<and> fst (run ok_env idle_dump) = Inr ()
   \<and> \<not> exists (world (snd (run ok_env idle_dump))) [''tmp'', ''tmpabc'']
   \<and> \<not> exists (world (snd (run ok_env idle_dump))) [''tmp'', ''tmpabc'', ''Payload'']"
proof -
  have r: "resolve (world idle_dump) ''/tmp/tmpabc'' = Inr [''tmp'', ''tmpabc'']"
    by (simp add: idle_dump_def home_os_def resolve_def)
  have n: "\<not> exists (world idle_dump) [''tmp'', ''tmpabc'']"
    by (simp add: idle_dump_def home_os_def exists_def)
  have p: "prefix [''tmp'', ''tmpabc''] [''tmp'', ''tmpabc'', ''Payload'']"
      "prefix [''tmp'', ''tmpabc''] [''tmp'', ''tmpabc'']"
    by simp_all
  have t: "tmpname exit_env = ''/tmp/tmpabc''" "tmpname failing_env = ''/tmp/tmpabc''"
      "tmpname ok_env = ''/tmp/tmpabc''"
    by (simp_all add: exit_env_def failing_env_def ok_env_def)
  note W = workspace_removed [of idle_dump _ "[''tmp'', ''tmpabc'']"]
  have "\<not> exists (world (snd (run exit_env idle_dump))) [''tmp'', ''tmpabc'']"
       "\<not> exists (world (snd (run exit_env idle_dump))) [''tmp'', ''tmpabc'', ''Payload'']"
       "\<not> exists (world (snd (run failing_env idle_dump))) [''tmp'', ''tmpabc'']"
       "\<not> exists (world (snd (run ok_env idle_dump))) [''tmp'', ''tmpabc'']"
       "\<not> exists (world (snd (run ok_env idle_dump))) [''tmp'', ''tmpabc'', ''Payload'']"
    using W [of exit_env] W [of failing_env] W [of ok_env] r n p t by simp_all
  then show ?thesis using r n p(1) run_exit run_failing run_ok by simp
qed

section \<open>The bytes of a transfer\<close>



















































end
